theory Spec2Isabelle
  imports Main "HOL-Library.AList" "HOL-Library.List_Lexorder" "HOL-Library.Product_Lexorder"
begin

section \<open>Values, errors and dictionaries\<close>

text \<open>
  The script \<^verbatim>\<open>scripts/create_networks.py\<close> reads one JSON document per company and
  derives two co-affiliation graphs. Every field it reads is a JSON string or is absent.
  A Python \<^verbatim>\<open>str\<close> is a sequence of Unicode code points, compared code point by code
  point: \<open>pystr\<close> is the list of the numbers of its code points (what \<^verbatim>\<open>ord\<close> returns,
  a Python \<^verbatim>\<open>int\<close>), with the lexicographic order.
  \<^verbatim>\<open>dict.get(key)\<close> returns \<^verbatim>\<open>None\<close> for an absent key and for a JSON null alike, so a
  field value is a \<open>cell\<close>: \<open>Some s\<close> for the string \<open>s\<close>, \<open>None\<close> for Python's
  \<^verbatim>\<open>None\<close>. A JSON object whose values are strings is the map from its keys, which the
  script writes as literals, to cells.
\<close>

type_synonym pystr = "int list"

type_synonym cell = "pystr option"

type_synonym pydict = "string \<Rightarrow> cell"

text \<open>The exceptions the script can raise; none of them is caught, so each aborts the run.\<close>

datatype py_error =
    JSONDecodeError string
  | KeyError
  | TypeError
  | AttributeError
  | ValueError
  | IndexError

text \<open>
  A loop or comprehension whose body may raise: the first exception ends it.
\<close>

fun try_map :: "('a \<Rightarrow> py_error + 'b) \<Rightarrow> 'a list \<Rightarrow> py_error + 'b list" where
  "try_map f [] = Inr []"
| "try_map f (x # xs) =
     (case f x of
        Inl e \<Rightarrow> Inl e
      | Inr y \<Rightarrow> (case try_map f xs of Inl e \<Rightarrow> Inl e | Inr ys \<Rightarrow> Inr (y # ys)))"

text \<open>
  A Python dictionary with keys of any hashable type is an association list with
  distinct keys, in insertion order. \<^verbatim>\<open>d[k]\<close> raises \<^verbatim>\<open>KeyError\<close> on a missing key,
  \<^verbatim>\<open>d.get(k, default)\<close> returns the default, and \<^verbatim>\<open>dict(pairs)\<close> inserts the pairs one
  after the other, a later pair overwriting the value of an earlier one with the same key.
\<close>

definition lookup :: "('k \<times> 'v) list \<Rightarrow> 'k \<Rightarrow> py_error + 'v" where
  "lookup d k = (case map_of d k of None \<Rightarrow> Inl KeyError | Some v \<Rightarrow> Inr v)"

definition dict_get :: "('k \<times> 'v) list \<Rightarrow> 'k \<Rightarrow> 'v \<Rightarrow> 'v" where
  "dict_get d k dflt = (case map_of d k of None \<Rightarrow> dflt | Some v \<Rightarrow> v)"

definition py_dict :: "('k \<times> 'v) list \<Rightarrow> ('k \<times> 'v) list" where
  "py_dict ps = foldl (\<lambda>d (k, v). AList.update k v d) [] ps"

section \<open>Record Loader\<close>

text \<open>
  \<^verbatim>\<open>json.load\<close> either raises \<^verbatim>\<open>JSONDecodeError\<close>, whose message gives the decoder's
  complaint and the position inside the document, or returns the document. A document is
  a JSON object that may have a \<^verbatim>\<open>Corp\<close> object and an \<^verbatim>\<open>Officers\<close> array of objects;
  \<open>None\<close> in the record below means that the key is missing.
\<close>

record company =
  Corp :: "pydict option"
  Officers :: "pydict list option"

datatype file_content = Malformed string | Document company

definition CORP_KEYS :: "string list" where
  "CORP_KEYS = [''CorpId'', ''CompanyName'', ''RegistrationNumber'', ''HoldingCompanyName'',
     ''HoldingCompanyRegNumber'', ''RegistrationDate'', ''AltName'']"

definition OFFICER_KEYS :: "string list" where
  "OFFICER_KEYS = [''CorpOfficerId'', ''FullNameNormalized'', ''FullName'', ''Nationality'',
     ''IdNumber'']"

text \<open>
  The loading loop (lines 127 to 134): the files are read in the order of
  \<^verbatim>\<open>os.listdir\<close>; each is given with its name.
\<close>

fun load_files :: "(string \<times> file_content) list \<Rightarrow> py_error + company list" where
  "load_files [] = Inr []"
| "load_files ((name, Malformed msg) # fs) = Inl (JSONDecodeError msg)"
| "load_files ((name, Document data) # fs) =
     (case load_files fs of Inl e \<Rightarrow> Inl e | Inr company_list \<Rightarrow> Inr (data # company_list))"

text \<open>
  The flattening loop (lines 144 to 160). \<^verbatim>\<open>company.get('Corp', dict())\<close> and
  \<^verbatim>\<open>company.get('Officers', list())\<close> replace a missing key by an empty value.
\<close>

definition corp_dict :: "company \<Rightarrow> pydict" where
  "corp_dict company =
     (\<lambda>key. if key \<in> set CORP_KEYS
        then (case Corp company of None \<Rightarrow> None | Some c \<Rightarrow> c key) else None)"

definition officer_dict :: "pydict \<Rightarrow> pydict" where
  "officer_dict officer = (\<lambda>key. if key \<in> set OFFICER_KEYS then officer key else None)"

definition full_dict :: "pydict \<Rightarrow> pydict \<Rightarrow> pydict" where
  "full_dict od cd = (\<lambda>key. if key \<in> set CORP_KEYS then cd key else od key)"

definition company_rows :: "company \<Rightarrow> pydict list" where
  "company_rows company =
     map (\<lambda>officer. full_dict (officer_dict officer) (corp_dict company))
       (case Officers company of None \<Rightarrow> [] | Some os \<Rightarrow> os)"

definition officer_dict_list :: "company list \<Rightarrow> pydict list" where
  "officer_dict_list company_list = concat (map company_rows company_list)"

section \<open>Identity Resolver and Membership Index\<close>

text \<open>
  \<^verbatim>\<open>pd.DataFrame(officer_dict_list)\<close> has one row per officer-at-company and one column
  per key; a \<^verbatim>\<open>None\<close> stays \<^verbatim>\<open>None\<close> in its column. With no row at all the frame has no
  column, \<^verbatim>\<open>df.apply\<close> returns an empty frame, and its assignment to the column
  \<^verbatim>\<open>OfficerUnique\<close> at line 168 raises \<^verbatim>\<open>ValueError\<close>.
\<close>

definition data_frame :: "pydict list \<Rightarrow> py_error + pydict list" where
  "data_frame rows = (if rows = [] then Inl ValueError else Inr rows)"

type_synonym officer = "cell \<times> cell"

definition officer_unique :: "pydict \<Rightarrow> officer" where
  "officer_unique row = (row ''FullNameNormalized'', row ''IdNumber'')"

text \<open>
  A Python \<^verbatim>\<open>set\<close> is modelled by the list of its elements in iteration order. CPython
  iterates a set in the order of its hash-table slots, and the hash of a \<^verbatim>\<open>str\<close> is salted
  anew in every process, so the order is not a function of the elements alone: \<open>slot\<close>
  stands for the slot assignment of one run, and elements of equal slot keep the order in
  which they were inserted. \<open>uniq\<close> keeps the first occurrence of every element, as the
  keys of a dictionary do.
\<close>

definition uniq :: "'a list \<Rightarrow> 'a list" where
  "uniq xs = rev (remdups (rev xs))"

definition py_set :: "('a \<Rightarrow> nat) \<Rightarrow> 'a list \<Rightarrow> 'a list" where
  "py_set slot xs = sort_key slot (uniq xs)"

record hash_seed =
  slot_officer :: "officer \<Rightarrow> nat"
  slot_corp :: "cell \<Rightarrow> nat"
  slot_officer_edge :: "officer \<times> officer \<times> nat \<Rightarrow> nat"
  slot_corp_edge :: "cell \<times> cell \<times> nat \<Rightarrow> nat"

text \<open>
  \<^verbatim>\<open>df.groupby(col)\<close> returns its groups with the keys sorted: strings in Python's
  order, and a \<^verbatim>\<open>None\<close>, which Python cannot compare with a string, after every string.
  A group whose key is \<^verbatim>\<open>None\<close> is dropped (\<^verbatim>\<open>dropna=True\<close> is the default); a tuple is
  never missing, also when its components are.
\<close>

definition null_last :: "cell \<Rightarrow> bool \<times> pystr" where
  "null_last c = (case c of None \<Rightarrow> (True, []) | Some s \<Rightarrow> (False, s))"

definition group_keys :: "('k \<Rightarrow> 'o::linorder) \<Rightarrow> 'k list \<Rightarrow> 'k list" where
  "group_keys order ks = sort_key order (remdups ks)"

definition officers_by_company :: "hash_seed \<Rightarrow> pydict list \<Rightarrow> (cell \<times> officer list) list" where
  "officers_by_company hs df =
     map (\<lambda>corpid. (corpid,
            py_set (slot_officer hs)
              (map officer_unique (filter (\<lambda>row. row ''CorpId'' = corpid) df))))
       (group_keys null_last
          (filter (\<lambda>corpid. corpid \<noteq> None) (map (\<lambda>row. row ''CorpId'') df)))"

definition companies_by_officer :: "hash_seed \<Rightarrow> pydict list \<Rightarrow> (officer \<times> cell list) list" where
  "companies_by_officer hs df =
     map (\<lambda>unique. (unique,
            py_set (slot_corp hs)
              (map (\<lambda>row. row ''CorpId'') (filter (\<lambda>row. officer_unique row = unique) df))))
       (group_keys (\<lambda>unique. (null_last (fst unique), null_last (snd unique)))
          (map officer_unique df))"

section \<open>Projection Engine\<close>

text \<open>
  Python's \<^verbatim>\<open><\<close>: between two strings it is the lexicographic order, with \<^verbatim>\<open>None\<close> on
  either side it raises \<^verbatim>\<open>TypeError\<close>. Two tuples are compared at the first position
  where they differ.
\<close>

fun cell_lt :: "cell \<Rightarrow> cell \<Rightarrow> py_error + bool" where
  "cell_lt (Some a) (Some b) = Inr (a < b)"
| "cell_lt _ _ = Inl TypeError"

fun tuple_lt :: "officer \<Rightarrow> officer \<Rightarrow> py_error + bool" where
  "tuple_lt (a1, a2) (b1, b2) =
     (if a1 \<noteq> b1 then cell_lt a1 b1 else if a2 \<noteq> b2 then cell_lt a2 b2 else Inr False)"

text \<open>
  \<^verbatim>\<open>sorted([a, b])\<close> makes one comparison, \<^verbatim>\<open>b < a\<close>, and swaps the two when it holds.
\<close>

definition py_sorted2 :: "('a \<Rightarrow> 'a \<Rightarrow> py_error + bool) \<Rightarrow> 'a \<Rightarrow> 'a \<Rightarrow> py_error + 'a \<times> 'a" where
  "py_sorted2 lt a b =
     (case lt b a of Inl e \<Rightarrow> Inl e | Inr swap \<Rightarrow> Inr (if swap then (b, a) else (a, b)))"

text \<open>
  The comprehension of lines 200 and 201 (and 243 and 244): the members of every group the
  node belongs to, one after the other. \<open>own\<close> maps a node to its groups, \<open>opp\<close> a
  group to its members.
\<close>

definition co_members :: "('a \<times> 'b list) list \<Rightarrow> ('b \<times> 'a list) list \<Rightarrow> 'a \<Rightarrow> py_error + 'a list" where
  "co_members own opp n =
     (case lookup own n of
        Inl e \<Rightarrow> Inl e
      | Inr groups \<Rightarrow>
          (case try_map (lookup opp) groups of Inl e \<Rightarrow> Inl e | Inr ms \<Rightarrow> Inr (concat ms)))"

text \<open>\<^verbatim>\<open>Counter(xs).items()\<close>, and \<^verbatim>\<open>del c[k]\<close>, which ignores a missing key.\<close>

definition counter_items :: "'a list \<Rightarrow> ('a \<times> nat) list" where
  "counter_items xs = map (\<lambda>x. (x, count_list xs x)) (uniq xs)"

definition del_key :: "'a \<Rightarrow> ('a \<times> nat) list \<Rightarrow> ('a \<times> nat) list" where
  "del_key k c = filter (\<lambda>item. fst item \<noteq> k) c"

definition node_edges ::
  "('a \<Rightarrow> 'a \<Rightarrow> py_error + bool) \<Rightarrow> ('a \<times> 'b list) list \<Rightarrow> ('b \<times> 'a list) list \<Rightarrow> 'a
     \<Rightarrow> py_error + ('a \<times> 'a \<times> nat) list" where
  "node_edges lt own opp n =
     (case co_members own opp n of
        Inl e \<Rightarrow> Inl e
      | Inr xs \<Rightarrow>
          try_map (\<lambda>(n2, weight).
              case py_sorted2 lt n n2 of
                Inl e \<Rightarrow> Inl e
              | Inr (source, target) \<Rightarrow> Inr (source, target, weight))
            (del_key n (counter_items xs)))"

definition projection ::
  "('a \<Rightarrow> 'a \<Rightarrow> py_error + bool) \<Rightarrow> ('a \<times> 'b list) list \<Rightarrow> ('b \<times> 'a list) list
     \<Rightarrow> py_error + ('a \<times> 'a \<times> nat) list" where
  "projection lt own opp =
     (case try_map (node_edges lt own opp) (map fst own) of
        Inl e \<Rightarrow> Inl e
      | Inr ess \<Rightarrow> Inr (concat ess))"

text \<open>
  The two edge lists after \<^verbatim>\<open>list(set(...))\<close> (lines 216 and 259).
\<close>

definition officer_edges :: "hash_seed \<Rightarrow> pydict list \<Rightarrow> py_error + (officer \<times> officer \<times> nat) list" where
  "officer_edges hs df =
     (case projection tuple_lt (companies_by_officer hs df) (officers_by_company hs df) of
        Inl e \<Rightarrow> Inl e
      | Inr es \<Rightarrow> Inr (py_set (slot_officer_edge hs) es))"

definition corp_edges :: "hash_seed \<Rightarrow> pydict list \<Rightarrow> py_error + (cell \<times> cell \<times> nat) list" where
  "corp_edges hs df =
     (case projection cell_lt (officers_by_company hs df) (companies_by_officer hs df) of
        Inl e \<Rightarrow> Inl e
      | Inr es \<Rightarrow> Inr (py_set (slot_corp_edge hs) es))"

section \<open>Component Filter\<close>

text \<open>
  The graph library (networkx) keeps an undirected graph as a dictionary that maps every
  node to the dictionary of its neighbours, each neighbour with the data of the edge;
  both are in insertion order. A node without neighbours has an empty dictionary.
\<close>

type_synonym 'a graph = "('a \<times> ('a \<times> nat) list) list"

definition nodes :: "'a graph \<Rightarrow> 'a list" where
  "nodes G = map fst G"

definition adj :: "'a graph \<Rightarrow> 'a \<Rightarrow> ('a \<times> nat) list" where
  "adj G n = (case map_of G n of None \<Rightarrow> [] | Some nbrs \<Rightarrow> nbrs)"

definition add_node :: "'a \<Rightarrow> 'a graph \<Rightarrow> 'a graph" where
  "add_node n G = (if n \<in> set (nodes G) then G else G @ [(n, [])])"

text \<open>
  \<^verbatim>\<open>add_edges_from\<close> adds both end points of every edge as nodes when they are new, and
  enters each in the neighbour dictionary of the other.
\<close>

definition add_edge :: "'a graph \<Rightarrow> 'a \<times> 'a \<times> nat \<Rightarrow> 'a graph" where
  "add_edge G e =
     (case e of (u, v, weight) \<Rightarrow>
        let G1 = add_node v (add_node u G);
            G2 = AList.update u (AList.update v weight (adj G1 u)) G1
        in AList.update v (AList.update u weight (adj G2 v)) G2)"

definition add_edges_from :: "('a \<times> 'a \<times> nat) list \<Rightarrow> 'a graph" where
  "add_edges_from es = foldl add_edge [] es"

text \<open>
  \<^verbatim>\<open>nx.connected_components\<close> visits the nodes in order and, from every node not seen
  yet, collects by breadth-first search the set of nodes that can be reached from it.
  The search is written level by level; it looks only at nodes of the graph, which are
  all there is in the neighbour dictionaries of a graph built by \<open>add_edges_from\<close>.
\<close>

definition next_level :: "'a graph \<Rightarrow> 'a list \<Rightarrow> 'a list \<Rightarrow> 'a list" where
  "next_level G seen thislevel =
     uniq (filter (\<lambda>w. w \<notin> set seen \<and> w \<in> set (nodes G))
       (concat (map (\<lambda>v. map fst (adj G v)) thislevel)))"

function plain_bfs_from :: "'a graph \<Rightarrow> 'a list \<Rightarrow> 'a list \<Rightarrow> 'a list" where
  "plain_bfs_from G seen thislevel =
     (if next_level G seen thislevel = [] then seen
      else plain_bfs_from G (seen @ next_level G seen thislevel) (next_level G seen thislevel))"
  by pat_completeness auto

termination plain_bfs_from
proof (relation "measure (\<lambda>(G, seen, thislevel). card (set (nodes G) - set seen))")
  show "wf (measure (\<lambda>(G, seen, thislevel). card (set (nodes G) - set seen)))"
    by simp
next
  fix G :: "'a graph" and seen thislevel :: "'a list"
  assume "next_level G seen thislevel \<noteq> []"
  then obtain w where w: "w \<in> set (next_level G seen thislevel)"
    by (cases "next_level G seen thislevel") auto
  then have "w \<in> set (nodes G) - set seen"
    by (auto simp: next_level_def uniq_def)
  moreover have "w \<notin> set (nodes G) - set (seen @ next_level G seen thislevel)"
    using w by simp
  ultimately have
    "set (nodes G) - set (seen @ next_level G seen thislevel) \<subset> set (nodes G) - set seen"
    by auto
  then have "card (set (nodes G) - set (seen @ next_level G seen thislevel))
      < card (set (nodes G) - set seen)"
    by (intro psubset_card_mono) auto
  then show "((G, seen @ next_level G seen thislevel, next_level G seen thislevel),
      (G, seen, thislevel)) \<in> measure (\<lambda>(G, seen, thislevel). card (set (nodes G) - set seen))"
    by simp
qed

definition plain_bfs :: "'a graph \<Rightarrow> 'a \<Rightarrow> 'a list" where
  "plain_bfs G source = plain_bfs_from G [source] [source]"

fun components_from :: "'a graph \<Rightarrow> 'a list \<Rightarrow> 'a list \<Rightarrow> 'a list list" where
  "components_from G seen [] = []"
| "components_from G seen (v # vs) =
     (if v \<in> set seen then components_from G seen vs
      else plain_bfs G v # components_from G (seen @ plain_bfs G v) vs)"

definition connected_components :: "'a graph \<Rightarrow> 'a list list" where
  "connected_components G = components_from G [] (nodes G)"

text \<open>
  \<^verbatim>\<open>max(xs, key = len)\<close> raises \<^verbatim>\<open>ValueError\<close> on an empty sequence and otherwise returns
  the first element of greatest length.
\<close>

fun max_len_from :: "'a list \<Rightarrow> 'a list list \<Rightarrow> 'a list" where
  "max_len_from best [] = best"
| "max_len_from best (c # cs) =
     (if length best < length c then max_len_from c cs else max_len_from best cs)"

definition max_len :: "'a list list \<Rightarrow> py_error + 'a list" where
  "max_len cs = (case cs of [] \<Rightarrow> Inl ValueError | c # cs' \<Rightarrow> Inr (max_len_from c cs'))"

text \<open>
  \<^verbatim>\<open>G.subgraph(c)\<close> shows the nodes of \<open>G\<close> that are in the set \<open>c\<close> and, in every
  neighbour dictionary, the neighbours that are in \<open>c\<close>. The view goes through its nodes
  in the order of \<open>G\<close>, unless \<open>c\<close> has fewer than half as many elements as \<open>G\<close> has
  nodes: then it goes through them in the iteration order of the set. A neighbour
  dictionary is never more than twice as long as \<open>c\<close> when \<open>c\<close> is a component, and is
  gone through in its own order. Here \<open>c\<close> is the set in its iteration order.
  \<^verbatim>\<open>G.edges(data = True)\<close> goes through the nodes and reports, for each, the edges to the
  neighbours it has not gone through yet.
\<close>

definition subgraph :: "'a graph \<Rightarrow> 'a list \<Rightarrow> 'a graph" where
  "subgraph G c =
     map (\<lambda>n. (n, filter (\<lambda>item. fst item \<in> set c) (adj G n)))
       (if 2 * length c < length G then filter (\<lambda>n. n \<in> set (nodes G)) c
        else filter (\<lambda>n. n \<in> set c) (nodes G))"

fun edges_from :: "'a list \<Rightarrow> 'a graph \<Rightarrow> ('a \<times> 'a \<times> nat) list" where
  "edges_from seen [] = []"
| "edges_from seen ((n, nbrs) # G) =
     map (\<lambda>(nbr, weight). (n, nbr, weight)) (filter (\<lambda>item. fst item \<notin> set seen) nbrs)
       @ edges_from (n # seen) G"

definition graph_edges :: "'a graph \<Rightarrow> ('a \<times> 'a \<times> nat) list" where
  "graph_edges G = edges_from [] G"

text \<open>
  Lines 276 to 289: the graph of an edge list and its largest connected subgraph. The
  component is a Python set; \<open>slot\<close> gives its iteration order.
\<close>

definition largest_component :: "('a \<Rightarrow> nat) \<Rightarrow> ('a \<times> 'a \<times> nat) list \<Rightarrow> py_error + 'a graph" where
  "largest_component slot es =
     (let G = add_edges_from es in
      case max_len (connected_components G) of
        Inl e \<Rightarrow> Inl e
      | Inr c \<Rightarrow> Inr (subgraph G (py_set slot c)))"

section \<open>Attribute Summarizer\<close>

text \<open>
  \<^verbatim>\<open>s.strip()\<close> removes the white space at both ends of a string; on \<^verbatim>\<open>None\<close> the
  attribute does not exist and \<^verbatim>\<open>AttributeError\<close> is raised. White space is what
  \<^verbatim>\<open>str.isspace\<close> accepts: the code points 9 to 13, 28 to 32, U+0085, U+00A0, U+1680,
  U+2000 to U+200A, U+2028, U+2029, U+202F, U+205F and U+3000.
\<close>

definition py_isspace :: "int \<Rightarrow> bool" where
  "py_isspace c \<longleftrightarrow>
     (9 \<le> c \<and> c \<le> 13) \<or> (28 \<le> c \<and> c \<le> 32) \<or> c = 133 \<or> c = 160 \<or> c = 5760
     \<or> (8192 \<le> c \<and> c \<le> 8202) \<or> c = 8232 \<or> c = 8233 \<or> c = 8239 \<or> c = 8287
     \<or> c = 12288"

definition strip :: "pystr \<Rightarrow> pystr" where
  "strip s = rev (dropWhile py_isspace (rev (dropWhile py_isspace s)))"

text \<open>
  The lookup tables of lines 343 to 345, 360, 364 and 395, each a \<^verbatim>\<open>dict(zip(...))\<close> over
  the rows of the frame. The keys of \<open>unique_to_name\<close> are tuples; it is also asked for
  \<^verbatim>\<open>None\<close>, so its key type has both: \<open>Some u\<close> is the tuple \<open>u\<close>.
\<close>

definition unique_to_name :: "pydict list \<Rightarrow> py_error + (officer option \<times> pystr) list" where
  "unique_to_name df =
     (case try_map (\<lambda>row. case row ''FullName'' of
                             None \<Rightarrow> Inl AttributeError
                           | Some s \<Rightarrow> Inr (strip s)) df of
        Inl e \<Rightarrow> Inl e
      | Inr names \<Rightarrow> Inr (py_dict (zip (map (\<lambda>row. Some (officer_unique row)) df) names)))"

definition corpid_to_company_name :: "pydict list \<Rightarrow> (cell \<times> cell) list" where
  "corpid_to_company_name df =
     py_dict (zip (map (\<lambda>row. row ''CorpId'') df) (map (\<lambda>row. row ''CompanyName'') df))"

definition corpid_to_alt_name :: "pydict list \<Rightarrow> (cell \<times> cell) list" where
  "corpid_to_alt_name df =
     py_dict (zip (map (\<lambda>row. row ''CorpId'') df) (map (\<lambda>row. row ''AltName'') df))"

definition unique_to_id :: "pydict list \<Rightarrow> (officer \<times> cell) list" where
  "unique_to_id df = py_dict (zip (map officer_unique df) (map (\<lambda>row. row ''IdNumber'') df))"

text \<open>
  \<^verbatim>\<open>sorted(items, key = k, reverse = True)\<close> is a stable sort in descending order: the
  list is reversed, sorted stably in ascending order and reversed again.
\<close>

definition sorted_reverse :: "('a \<Rightarrow> nat) \<Rightarrow> 'a list \<Rightarrow> 'a list" where
  "sorted_reverse k xs = rev (sort_key k (rev xs))"

text \<open>
  Lines 63 to 77 and 96 to 110, the same in both functions: the members of a node, each
  with the number of its own groups, sorted by that number and cut to three; with them,
  the number of members before the cut.
\<close>

definition most_popular ::
  "('a \<times> 'b list) list \<Rightarrow> ('b \<times> 'a list) list \<Rightarrow> 'a \<Rightarrow> py_error + 'b list \<times> nat" where
  "most_popular own opp n =
     (case lookup own n of
        Inl e \<Rightarrow> Inl e
      | Inr members \<Rightarrow>
          (case try_map (\<lambda>m. case lookup opp m of
                                Inl e \<Rightarrow> Inl e
                              | Inr groups \<Rightarrow> Inr (m, length groups)) members of
             Inl e \<Rightarrow> Inl e
           | Inr d \<Rightarrow>
               let l = map fst (py_dict (sorted_reverse snd (py_dict d)));
                   ll = length l
               in Inr (take (min 3 ll) l, ll)))"

definition get_most_popular_officers ::
  "(cell \<times> officer list) list \<Rightarrow> (officer \<times> cell list) list \<Rightarrow> (officer option \<times> pystr) list
     \<Rightarrow> cell \<Rightarrow> py_error + pystr list" where
  "get_most_popular_officers obc cbo names_of corpid =
     (case most_popular obc cbo corpid of
        Inl e \<Rightarrow> Inl e
      | Inr (l, ll) \<Rightarrow>
          Inr (map (\<lambda>name. dict_get names_of name [])
                 (map Some l @ replicate (3 - ll) None)))"

definition get_most_popular_companies ::
  "(cell \<times> officer list) list \<Rightarrow> (officer \<times> cell list) list \<Rightarrow> (cell \<times> cell) list
     \<Rightarrow> officer \<Rightarrow> py_error + cell list" where
  "get_most_popular_companies obc cbo names_of unique =
     (case most_popular cbo obc unique of
        Inl e \<Rightarrow> Inl e
      | Inr (l, ll) \<Rightarrow>
          Inr (map (\<lambda>name. dict_get names_of name (Some []))
                 (l @ replicate (3 - ll) None)))"

section \<open>Output tables\<close>

definition item :: "'a list \<Rightarrow> nat \<Rightarrow> py_error + 'a" where
  "item xs i = (if i < length xs then Inr (xs ! i) else Inl IndexError)"

definition and_then :: "py_error + 'a \<Rightarrow> ('a \<Rightarrow> py_error + 'b) \<Rightarrow> py_error + 'b" where
  "and_then r f = (case r of Inl e \<Rightarrow> Inl e | Inr x \<Rightarrow> f x)"

text \<open>
  The dictionaries \<^verbatim>\<open>most_popular_officer_1\<close> to \<^verbatim>\<open>most_popular_company_3\<close>: for every
  key, the field of the given index.
\<close>

definition most_popular_field ::
  "('k \<Rightarrow> py_error + 'v list) \<Rightarrow> nat \<Rightarrow> 'k list \<Rightarrow> py_error + ('k \<times> 'v) list" where
  "most_popular_field get i ks =
     and_then
       (try_map (\<lambda>k. and_then (get k) (\<lambda>names. and_then (item names i) (\<lambda>v. Inr (k, v)))) ks)
       (\<lambda>ps. Inr (py_dict ps))"

text \<open>
  A column made by \<^verbatim>\<open>Series.map(d)\<close> holds \<^verbatim>\<open>d[k]\<close>, and a missing value where \<open>k\<close> is
  not a key of \<open>d\<close>.
\<close>

record corp_attributes =
  CorpId :: cell
  CompanyName :: cell
  AltName :: cell
  Officer1 :: cell
  Officer2 :: cell
  Officer3 :: cell

record officer_attributes =
  OfficerUnique :: officer
  FullName :: cell
  IdNumber :: cell
  Company1 :: cell
  Company2 :: cell
  Company3 :: cell

record tables =
  officers_edges :: "(officer \<times> officer \<times> nat) list"
  corporations_edges :: "(cell \<times> cell \<times> nat) list"
  corporations_attributes :: "corp_attributes list"
  officers_attributes :: "officer_attributes list"

text \<open>
  The whole script. The two graph files it also writes hold the same graphs as the edge
  tables and are not modelled.
\<close>

definition run :: "hash_seed \<Rightarrow> (string \<times> file_content) list \<Rightarrow> py_error + tables" where
  "run hs files =
     and_then (load_files files) (\<lambda>company_list.
     and_then (data_frame (officer_dict_list company_list)) (\<lambda>df.
     let obc = officers_by_company hs df;
         cbo = companies_by_officer hs df
     in
     and_then (officer_edges hs df) (\<lambda>oes.
     and_then (corp_edges hs df) (\<lambda>ces.
     and_then (largest_component (slot_officer hs) oes) (\<lambda>G_officers.
     and_then (largest_component (slot_corp hs) ces) (\<lambda>G_corps.
     let filtered_officers = py_set (slot_officer hs) (nodes G_officers);
         filtered_corps = py_set (slot_corp hs) (nodes G_corps)
     in
     and_then (unique_to_name df) (\<lambda>names_of.
     and_then (most_popular_field (get_most_popular_officers obc cbo names_of) 0 filtered_corps) (\<lambda>mpo1.
     and_then (most_popular_field (get_most_popular_officers obc cbo names_of) 1 filtered_corps) (\<lambda>mpo2.
     and_then (most_popular_field (get_most_popular_officers obc cbo names_of) 2 filtered_corps) (\<lambda>mpo3.
     let company_names = corpid_to_company_name df;
         alt_names = corpid_to_alt_name df;
         cdf = map (\<lambda>corpid.
                 \<lparr>CorpId = corpid,
                  CompanyName = dict_get company_names corpid None,
                  AltName = dict_get alt_names corpid None,
                  Officer1 = map_of mpo1 corpid,
                  Officer2 = map_of mpo2 corpid,
                  Officer3 = map_of mpo3 corpid\<rparr>) filtered_corps
     in
     and_then (most_popular_field (get_most_popular_companies obc cbo company_names) 0 (map fst cbo)) (\<lambda>mpc1.
     and_then (most_popular_field (get_most_popular_companies obc cbo company_names) 1 (map fst cbo)) (\<lambda>mpc2.
     and_then (most_popular_field (get_most_popular_companies obc cbo company_names) 2 (map fst cbo)) (\<lambda>mpc3.
     let ids = unique_to_id df;
         odf = map (\<lambda>unique.
                 \<lparr>OfficerUnique = unique,
                  FullName = map_of names_of (Some unique),
                  IdNumber = dict_get ids unique None,
                  Company1 = dict_get mpc1 unique None,
                  Company2 = dict_get mpc2 unique None,
                  Company3 = dict_get mpc3 unique None\<rparr>) filtered_officers
     in Inr \<lparr>officers_edges = graph_edges G_officers,
             corporations_edges = graph_edges G_corps,
             corporations_attributes = cdf,
             officers_attributes = odf\<rparr>)))))))))))))"

section \<open>Sample inputs\<close>

text \<open>
  A slot assignment that leaves every set in insertion order, and the three companies
  \<open>C1 = {O1, O2}\<close>, \<open>C2 = {O2, O3}\<close> and \<open>C3 = {O1, O3, O4}\<close>.
\<close>

definition sample_seed :: hash_seed where
  "sample_seed = \<lparr>slot_officer = (\<lambda>u. 0), slot_corp = (\<lambda>c. 0),
     slot_officer_edge = (\<lambda>e. 0), slot_corp_edge = (\<lambda>e. 0)\<rparr>"

definition ascii :: "string \<Rightarrow> pystr" where
  "ascii s = map of_char s"

definition sample_officer :: "string \<Rightarrow> string \<Rightarrow> string \<Rightarrow> pydict" where
  "sample_officer n i f =
     map_of [(''FullNameNormalized'', ascii n), (''IdNumber'', ascii i), (''FullName'', ascii f)]"

definition sample_corp :: "string \<Rightarrow> string \<Rightarrow> pydict" where
  "sample_corp c n = map_of [(''CorpId'', ascii c), (''CompanyName'', ascii n)]"

definition sample_files :: "(string \<times> file_content) list" where
  "sample_files =
     [(''1.json'', Document \<lparr>Corp = Some (sample_corp ''C1'' ''One''),
         Officers = Some [sample_officer ''O1'' ''1'' ''Aung'', sample_officer ''O2'' ''2'' ''Bo'']\<rparr>),
      (''2.json'', Document \<lparr>Corp = Some (sample_corp ''C2'' ''Two''),
         Officers = Some [sample_officer ''O2'' ''2'' ''Bo'', sample_officer ''O3'' ''3'' ''Chit'']\<rparr>),
      (''3.json'', Document \<lparr>Corp = Some (sample_corp ''C3'' ''Three''),
         Officers = Some [sample_officer ''O1'' ''1'' ''Aung'', sample_officer ''O3'' ''3'' ''Chit'',
           sample_officer ''O4'' ''4'' ''Dwe'']\<rparr>)]"

definition sample_row :: "string \<Rightarrow> string \<Rightarrow> string \<Rightarrow> string \<Rightarrow> pystr \<Rightarrow> pydict" where
  "sample_row c cn n i f =
     map_of [(''CorpId'', ascii c), (''CompanyName'', ascii cn), (''FullNameNormalized'', ascii n),
       (''IdNumber'', ascii i), (''FullName'', f)]"

text \<open>
  Three rows in which an officer and a company occur twice; the second name of the officer
  has a no-break space (U+00A0) in front and a space behind.
\<close>

definition renamed_rows :: "pydict list" where
  "renamed_rows =
     [sample_row ''C1'' ''One'' ''O1'' ''1'' (ascii ''Aung''),
      sample_row ''C2'' ''Two Ltd'' ''O1'' ''1'' (160 # ascii ''U Aung ''),
      sample_row ''C2'' ''Two Limited'' ''O2'' ''2'' (ascii ''Bo'')]"

section \<open>Loops that may raise, and dictionaries\<close>

lemma try_map_Inr_iff:
  "try_map f xs = Inr ys \<longleftrightarrow> list_all2 (\<lambda>x y. f x = Inr y) xs ys"
proof (induction xs arbitrary: ys)
  case Nil
  then show ?case by auto
next
  case (Cons a xs)
  show ?case
    by (auto simp: list_all2_Cons1 Cons.IH[symmetric] split: sum.splits)
qed

lemma try_map_Inr_set:
  "try_map f xs = Inr ys \<Longrightarrow> y \<in> set ys \<longleftrightarrow> (\<exists>x \<in> set xs. f x = Inr y)"
  unfolding try_map_Inr_iff
  by (induction xs ys rule: list_all2_induct) auto

lemma try_map_Inr_all:
  "try_map f xs = Inr ys \<Longrightarrow> x \<in> set xs \<Longrightarrow> \<exists>y. f x = Inr y"
  unfolding try_map_Inr_iff
  by (induction xs ys rule: list_all2_induct) auto

lemma try_map_total:
  "\<forall>x \<in> set xs. \<exists>y. f x = Inr y \<Longrightarrow> \<exists>ys. try_map f xs = Inr ys"
  by (induction xs) (auto split: sum.splits)

lemma try_map_Inr_map:
  "\<forall>x \<in> set xs. f x = Inr (g x) \<Longrightarrow> try_map f xs = Inr (map g xs)"
  by (induction xs) auto

lemma try_map_Inl:
  "x \<in> set xs \<Longrightarrow> isl (f x) \<Longrightarrow> isl (try_map f xs)"
  by (induction xs) (auto split: sum.splits)

lemma map_of_foldl_update:
  "map_of (foldl (\<lambda>d (k, v). AList.update k v d) d0 ps) = map_of d0 ++ map_of (rev ps)"
proof (induction ps arbitrary: d0)
  case Nil
  then show ?case by simp
next
  case (Cons p ps)
  obtain k v where p: "p = (k, v)" by (cases p)
  have "map_of (foldl (\<lambda>d (k, v). AList.update k v d) d0 (p # ps))
      = map_of (AList.update k v d0) ++ map_of (rev ps)"
    using Cons.IH[of "AList.update k v d0"] by (simp add: p)
  also have "\<dots> = map_of d0 ++ map_of (rev (p # ps))"
    by (simp add: p update_conv' map_add_upd_left fun_eq_iff map_add_def split: option.splits)
  finally show ?case .
qed

lemma map_of_py_dict: "map_of (py_dict ps) = map_of (rev ps)"
  by (simp add: py_dict_def map_of_foldl_update)

lemma distinct_foldl_update:
  "distinct (map fst d0) \<Longrightarrow> distinct (map fst (foldl (\<lambda>d (k, v). AList.update k v d) d0 ps))"
  by (induction ps arbitrary: d0) (auto simp: distinct_update)

lemma distinct_py_dict: "distinct (map fst (py_dict ps))"
  by (simp add: py_dict_def distinct_foldl_update)

lemma update_fresh: "k \<notin> fst ` set d \<Longrightarrow> AList.update k v d = d @ [(k, v)]"
  by (induction d) auto

lemma foldl_update_distinct:
  "distinct (map fst (d0 @ ps)) \<Longrightarrow> foldl (\<lambda>d (k, v). AList.update k v d) d0 ps = d0 @ ps"
proof (induction ps arbitrary: d0)
  case Nil
  then show ?case by simp
next
  case (Cons p ps)
  obtain k v where p: "p = (k, v)" by (cases p)
  have "k \<notin> fst ` set d0" using Cons.prems by (auto simp: p)
  then have "AList.update k v d0 = d0 @ [p]" by (simp add: update_fresh p)
  moreover have "distinct (map fst ((d0 @ [p]) @ ps))" using Cons.prems by simp
  ultimately show ?case using Cons.IH[of "d0 @ [p]"] by (simp add: p)
qed

lemma py_dict_distinct: "distinct (map fst ps) \<Longrightarrow> py_dict ps = ps"
  using foldl_update_distinct[of "[]" ps] by (simp add: py_dict_def)

lemma map_of_rev_zip_last:
  "map_of (rev (zip (map k xs) (map v xs))) a =
     (if filter (\<lambda>x. k x = a) xs = [] then None
      else Some (v (last (filter (\<lambda>x. k x = a) xs))))"
  by (induction xs rule: rev_induct) auto

section \<open>Record Loader: input errors\<close>

lemma load_files_documents:
  "load_files (map (\<lambda>(name, d). (name, Document d)) nds) = Inr (map snd nds)"
  by (induction nds) auto

lemma load_files_malformed:
  "(name, Malformed msg) \<in> set files \<Longrightarrow>
   \<exists>name' msg'. (name', Malformed msg') \<in> set files \<and> load_files files = Inl (JSONDecodeError msg')"
proof (induction files rule: load_files.induct)
  case 1
  then show ?case by simp
next
  case (2 name' msg' fs)
  then show ?case by auto
next
  case (3 name' data fs)
  then obtain n m where "(n, Malformed m) \<in> set fs" "load_files fs = Inl (JSONDecodeError m)"
    by auto
  then show ?case by auto
qed

lemma run_load_error: "load_files files = Inl e \<Longrightarrow> run hs files = Inl e"
  by (simp add: run_def and_then_def)

lemma company_rows_no_officers: "Officers company = None \<Longrightarrow> company_rows company = []"
  by (simp add: company_rows_def)

lemma company_rows_no_corp:
  "Corp company = None \<Longrightarrow> row \<in> set (company_rows company) \<Longrightarrow> key \<in> set CORP_KEYS \<Longrightarrow> row key = None"
  by (auto simp: company_rows_def full_dict_def corp_dict_def)

text \<open>
  Claim C2, as the script has it. A file with malformed JSON aborts the whole run: the run
  ends with the decoder's \<^verbatim>\<open>JSONDecodeError\<close>, which carries the decoder's message and
  not the name of the file, and no table is written. Files without malformed JSON all
  load. A document without the \<^verbatim>\<open>Officers\<close> key gives no row, and a document without the
  \<^verbatim>\<open>Corp\<close> key gives rows in which every company field is \<^verbatim>\<open>None\<close>; neither is an
  error of the loader.
\<close>

theorem loader_errors:
  "((name, Malformed msg) \<in> set files \<longrightarrow>
      (\<exists>name' msg'. (name', Malformed msg') \<in> set files
         \<and> run hs files = Inl (JSONDecodeError msg')))
   \<and> load_files (map (\<lambda>(name, d). (name, Document d)) nds) = Inr (map snd nds)
   \<and> (Officers company = None \<longrightarrow> company_rows company = [])
   \<and> (Corp company = None \<longrightarrow>
        (\<forall>row \<in> set (company_rows company). \<forall>key \<in> set CORP_KEYS. row key = None))"
  using load_files_malformed[of name msg files] run_load_error[of files _ hs]
    load_files_documents[of nds] company_rows_no_officers[of company]
    company_rows_no_corp[of company]
  by blast

theorem loader_errors_witness:
  "run sample_seed
      ((''bad.json'', Malformed ''Expecting value: line 1 column 1 (char 0)'') # sample_files)
     = Inl (JSONDecodeError ''Expecting value: line 1 column 1 (char 0)'')
   \<and> company_rows \<lparr>Corp = Some (sample_corp ''C1'' ''One''), Officers = None\<rparr> = []
   \<and> map (\<lambda>row. row ''CorpId'')
        (company_rows \<lparr>Corp = None, Officers = Some [sample_officer ''O1'' ''1'' ''Aung'']\<rparr>)
       = [None]"
proof -
  let ?msg = "''Expecting value: line 1 column 1 (char 0)''"
  let ?files = "(''bad.json'', Malformed ?msg) # sample_files"
  let ?c1 = "\<lparr>Corp = Some (sample_corp ''C1'' ''One''), Officers = None\<rparr>"
  let ?c2 = "\<lparr>Corp = None, Officers = Some [sample_officer ''O1'' ''1'' ''Aung'']\<rparr>"
  have "(''bad.json'', Malformed ?msg) \<in> set ?files"
    by simp
  with loader_errors[of "''bad.json''" ?msg ?files sample_seed "[]" ?c1]
  obtain name' msg' where "(name', Malformed msg') \<in> set ?files"
    and "run sample_seed ?files = Inl (JSONDecodeError msg')"
    by blast
  then have first: "run sample_seed ?files = Inl (JSONDecodeError ?msg)"
    by (auto simp: sample_files_def)
  have second: "company_rows ?c1 = []"
    using loader_errors[of "''bad.json''" ?msg ?files sample_seed "[]" ?c1] by simp
  have "\<forall>row \<in> set (company_rows ?c2). \<forall>key \<in> set CORP_KEYS. row key = None"
    using loader_errors[of "''bad.json''" ?msg ?files sample_seed "[]" ?c2] by simp
  then have third: "map (\<lambda>row. row ''CorpId'') (company_rows ?c2) = [None]"
    by (simp add: company_rows_def CORP_KEYS_def)
  from first second third show ?thesis
    by blast
qed

text \<open>
  The claim as the specification states it fails on a document that has neither key:
  together with the three sample files the run ends normally.
\<close>

theorem missing_keys_counterexample:
  "\<not> isl (run sample_seed
      ((''0.json'', Document \<lparr>Corp = None, Officers = None\<rparr>) # sample_files))"
  by code_simp

section \<open>Identity Resolver: the lookup tables\<close>

lemma unique_to_name_Inr:
  assumes "unique_to_name df = Inr names"
  shows "names = py_dict (zip (map (\<lambda>row. Some (officer_unique row)) df)
           (map (\<lambda>row. strip (the (row ''FullName''))) df))"
    and "\<forall>row \<in> set df. row ''FullName'' \<noteq> None"
proof -
  let ?f = "\<lambda>row. case row ''FullName'' of None \<Rightarrow> Inl AttributeError | Some s \<Rightarrow> Inr (strip s)"
  from assms obtain ns where ns: "try_map ?f df = Inr ns"
    and names: "names = py_dict (zip (map (\<lambda>row. Some (officer_unique row)) df) ns)"
    by (auto simp: unique_to_name_def split: sum.splits)
  show all: "\<forall>row \<in> set df. row ''FullName'' \<noteq> None"
  proof
    fix row assume "row \<in> set df"
    from try_map_Inr_all[OF ns this] show "row ''FullName'' \<noteq> None"
      by (auto split: option.splits)
  qed
  then have "try_map ?f df = Inr (map (\<lambda>row. strip (the (row ''FullName''))) df)"
    by (intro try_map_Inr_map) (auto split: option.splits)
  with ns have "ns = map (\<lambda>row. strip (the (row ''FullName''))) df" by simp
  with names show "names = py_dict (zip (map (\<lambda>row. Some (officer_unique row)) df)
           (map (\<lambda>row. strip (the (row ''FullName''))) df))" by simp
qed

lemma unique_to_name_total:
  assumes "\<forall>row \<in> set df. row ''FullName'' \<noteq> None"
  shows "\<exists>names. unique_to_name df = Inr names"
proof -
  let ?f = "\<lambda>row. case row ''FullName'' of None \<Rightarrow> Inl AttributeError | Some s \<Rightarrow> Inr (strip s)"
  have "\<exists>ns. try_map ?f df = Inr ns"
    using assms by (intro try_map_total) (auto split: option.splits)
  then show ?thesis by (auto simp: unique_to_name_def)
qed

lemma unique_to_name_last:
  assumes "unique_to_name df = Inr names" and "row \<in> set df"
  shows "\<exists>s. last (filter (\<lambda>r. officer_unique r = officer_unique row) df) ''FullName'' = Some s
           \<and> map_of names (Some (officer_unique row)) = Some (strip s)"
proof -
  let ?rs = "filter (\<lambda>r. officer_unique r = officer_unique row) df"
  have ne: "?rs \<noteq> []" using assms(2) by (auto simp: filter_empty_conv)
  then have "last ?rs \<in> set df" using last_in_set[OF ne] by auto
  with unique_to_name_Inr(2)[OF assms(1)] obtain s where s: "last ?rs ''FullName'' = Some s"
    by auto
  have "map_of names (Some (officer_unique row)) = Some (strip (the (last ?rs ''FullName'')))"
    using ne map_of_rev_zip_last[of "\<lambda>row. Some (officer_unique row)" df
        "\<lambda>row. strip (the (row ''FullName''))" "Some (officer_unique row)"]
    by (simp add: unique_to_name_Inr(1)[OF assms(1)] map_of_py_dict)
  with s show ?thesis by simp
qed

lemma corpid_table_last:
  assumes "row \<in> set df"
  shows "map_of (py_dict (zip (map (\<lambda>r. r ''CorpId'') df) (map v df))) (row ''CorpId'')
     = Some (v (last (filter (\<lambda>r. r ''CorpId'' = row ''CorpId'') df)))"
proof -
  have "filter (\<lambda>r. r ''CorpId'' = row ''CorpId'') df \<noteq> []"
    using assms by (auto simp: filter_empty_conv)
  then show ?thesis
    using map_of_rev_zip_last[of "\<lambda>r. r ''CorpId''" df v "row ''CorpId''"]
    by (simp add: map_of_py_dict)
qed

lemma strip_ends:
  "\<exists>pre post. s = pre @ strip s @ post
     \<and> (\<forall>c \<in> set pre. py_isspace c) \<and> (\<forall>c \<in> set post. py_isspace c)
     \<and> (strip s \<noteq> [] \<longrightarrow> \<not> py_isspace (hd (strip s)) \<and> \<not> py_isspace (last (strip s)))"
proof -
  let ?t = "dropWhile py_isspace s"
  let ?u = "dropWhile py_isspace (rev ?t)"
  let ?post = "rev (takeWhile py_isspace (rev ?t))"
  have u: "strip s = rev ?u"
    by (simp add: strip_def)
  have "?t = rev (takeWhile py_isspace (rev ?t) @ ?u)"
    by (simp only: takeWhile_dropWhile_id rev_rev_ident)
  also have "\<dots> = rev ?u @ ?post"
    by (simp only: rev_append)
  finally have t: "?t = strip s @ ?post"
    by (simp only: u)
  have "s = takeWhile py_isspace s @ ?t"
    by (simp only: takeWhile_dropWhile_id)
  with t have s: "s = takeWhile py_isspace s @ strip s @ ?post"
    by simp
  have pre: "\<forall>c \<in> set (takeWhile py_isspace s). py_isspace c"
    by (auto dest: set_takeWhileD)
  have post: "\<forall>c \<in> set ?post. py_isspace c"
    by (auto dest: set_takeWhileD)
  have ends: "\<not> py_isspace (hd (strip s)) \<and> \<not> py_isspace (last (strip s))" if ne: "strip s \<noteq> []"
  proof -
    from ne have une: "?u \<noteq> []" by (simp add: u)
    then have "\<not> py_isspace (hd ?u)" by (rule hd_dropWhile)
    then have l: "\<not> py_isspace (last (strip s))"
      using une by (simp add: u last_rev)
    from ne t have tne: "?t \<noteq> []" by (metis Nil_is_append_conv)
    then have "\<not> py_isspace (hd ?t)" by (rule hd_dropWhile)
    moreover have "hd ?t = hd (strip s)"
      using ne t by (metis hd_append2)
    ultimately show ?thesis using l by simp
  qed
  from s pre post ends show ?thesis by blast
qed

text \<open>
  Claim C3, as the script has it. \<^verbatim>\<open>dict(zip(keys, values))\<close> keeps, for a key that
  occurs in several rows, the value of the last of them. So the display name of an officer
  identity is the trimmed \<^verbatim>\<open>FullName\<close> of the last row with that identity, and the
  company name and the alternative name of a \<^verbatim>\<open>CorpId\<close> are those of the last row with
  that \<^verbatim>\<open>CorpId\<close>. Trimming takes white space, and nothing else, from both ends until a
  character that is not white space stands there. The table of display names exists when
  no row has a null \<^verbatim>\<open>FullName\<close>.
\<close>

theorem lookup_tables_last_value:
  "(unique_to_name df = Inr names \<and> row \<in> set df \<longrightarrow>
      (\<exists>s. last (filter (\<lambda>r. officer_unique r = officer_unique row) df) ''FullName'' = Some s
         \<and> map_of names (Some (officer_unique row)) = Some (strip s)))
   \<and> (\<exists>pre post. s = pre @ strip s @ post
         \<and> (\<forall>c \<in> set pre. py_isspace c) \<and> (\<forall>c \<in> set post. py_isspace c)
         \<and> (strip s \<noteq> [] \<longrightarrow> \<not> py_isspace (hd (strip s)) \<and> \<not> py_isspace (last (strip s))))
   \<and> (row \<in> set df \<longrightarrow>
        map_of (corpid_to_company_name df) (row ''CorpId'')
          = Some (last (filter (\<lambda>r. r ''CorpId'' = row ''CorpId'') df) ''CompanyName'')
        \<and> map_of (corpid_to_alt_name df) (row ''CorpId'')
          = Some (last (filter (\<lambda>r. r ''CorpId'' = row ''CorpId'') df) ''AltName''))
   \<and> ((\<forall>r \<in> set df. r ''FullName'' \<noteq> None) \<longrightarrow> (\<exists>names. unique_to_name df = Inr names))"
  using unique_to_name_last[of df names row] unique_to_name_total[of df] strip_ends[of s]
    corpid_table_last[of row df "\<lambda>r. r ''CompanyName''"]
    corpid_table_last[of row df "\<lambda>r. r ''AltName''"]
  by (simp add: corpid_to_company_name_def corpid_to_alt_name_def)

theorem lookup_tables_last_value_witness:
  "map_of (projr (unique_to_name renamed_rows)) (Some (Some (ascii ''O1''), Some (ascii ''1'')))
     = Some (ascii ''U Aung'')
   \<and> strip (160 # ascii ''U Aung '') = ascii ''U Aung''
   \<and> map_of (corpid_to_company_name renamed_rows) (Some (ascii ''C2''))
       = Some (Some (ascii ''Two Limited''))
   \<and> map_of (corpid_to_alt_name renamed_rows) (Some (ascii ''C2'')) = Some None"
proof -
  define row where "row = sample_row ''C2'' ''Two Ltd'' ''O1'' ''1'' (160 # ascii ''U Aung '')"
  define names where "names = projr (unique_to_name renamed_rows)"
  have all: "\<forall>r \<in> set renamed_rows. r ''FullName'' \<noteq> None"
    by (simp add: renamed_rows_def sample_row_def)
  have mem: "row \<in> set renamed_rows"
    by (simp add: renamed_rows_def row_def)
  note inst = lookup_tables_last_value[of renamed_rows names row "160 # ascii ''U Aung ''"]
  from inst all have names: "unique_to_name renamed_rows = Inr names"
    by (auto simp: names_def)
  with inst mem obtain s
    where s: "last (filter (\<lambda>r. officer_unique r = officer_unique row) renamed_rows) ''FullName''
        = Some s"
      and look: "map_of names (Some (officer_unique row)) = Some (strip s)"
    by blast
  have key: "officer_unique row = (Some (ascii ''O1''), Some (ascii ''1''))"
    by (simp add: row_def sample_row_def officer_unique_def)
  have "last (filter (\<lambda>r. officer_unique r = officer_unique row) renamed_rows) = row"
    by (simp add: renamed_rows_def row_def sample_row_def officer_unique_def ascii_def)
  with s have "s = 160 # ascii ''U Aung ''"
    by (simp add: row_def sample_row_def)
  moreover have trimmed: "strip (160 # ascii ''U Aung '') = ascii ''U Aung''"
    by code_simp
  ultimately have first: "map_of names (Some (Some (ascii ''O1''), Some (ascii ''1'')))
      = Some (ascii ''U Aung'')"
    using look key by simp
  from inst mem have "map_of (corpid_to_company_name renamed_rows) (row ''CorpId'')
          = Some (last (filter (\<lambda>r. r ''CorpId'' = row ''CorpId'') renamed_rows) ''CompanyName'')
        \<and> map_of (corpid_to_alt_name renamed_rows) (row ''CorpId'')
          = Some (last (filter (\<lambda>r. r ''CorpId'' = row ''CorpId'') renamed_rows) ''AltName'')"
    by blast
  then have rest: "map_of (corpid_to_company_name renamed_rows) (Some (ascii ''C2''))
        = Some (Some (ascii ''Two Limited''))
      \<and> map_of (corpid_to_alt_name renamed_rows) (Some (ascii ''C2'')) = Some None"
    by (simp add: renamed_rows_def row_def sample_row_def ascii_def)
  from first trimmed rest show ?thesis
    by (simp add: names_def)
qed

text \<open>
  The claim as the specification states it, with the first row winning, fails on three
  rows in which an officer and a company occur twice with different names.
\<close>

theorem first_name_counterexample:
  "unique_to_name renamed_rows
     = Inr [(Some (Some (ascii ''O1''), Some (ascii ''1'')), ascii ''U Aung''),
            (Some (Some (ascii ''O2''), Some (ascii ''2'')), ascii ''Bo'')]
   \<and> map (\<lambda>row. row ''FullName'') renamed_rows
       = [Some (ascii ''Aung''), Some (160 # ascii ''U Aung ''), Some (ascii ''Bo'')]
   \<and> dict_get (corpid_to_company_name renamed_rows) (Some (ascii ''C2'')) None
       = Some (ascii ''Two Limited'')
   \<and> map (\<lambda>row. row ''CompanyName'') renamed_rows
       = [Some (ascii ''One''), Some (ascii ''Two Ltd''), Some (ascii ''Two Limited'')]"
  by code_simp

end
